theory Spec2Isabelle
  imports Complex_Main
begin

section \<open>The chat-completion notebook\<close>

text \<open>
  The repository is one notebook, \<^verbatim>\<open>OpenAI/1_basic_chatcompletions_example.ipynb\<close>,
  with two cells that matter: the setup cell, which assigns four attributes of the
  \<^verbatim>\<open>openai\<close> module, and the request cell, which calls
  \<^verbatim>\<open>openai.ChatCompletion.create\<close> once inside \<^verbatim>\<open>try\<close> and prints either the
  contents of the returned choices or the exception.

  The vendor library and the remote service behind it are not part of the repository.
  They enter the model as a parameter \<open>sdk\<close>: a function that receives the keyword
  arguments of the call, the attributes of the \<^verbatim>\<open>openai\<close> module and the rest of the
  world it may depend on, and gives back either a raised exception or a returned value,
  together with the module attributes and the world as it leaves them. The call has no
  access to the names of the notebook and is taken not to print; nothing else is assumed
  about it in the definitions.
\<close>

subsection \<open>Python values, exceptions and printed output\<close>

text \<open>
  The response is a dynamically typed object that the cell reads with subscripts, so it
  is a value of the JSON-shaped part of Python. A dict is an association list in
  insertion order; its keys are strings and are distinct.
\<close>

datatype pyval =
    PNone
  | PBool bool
  | PInt int
  | PFloat real
  | PStr string
  | PList "pyval list"
  | PDict "(string \<times> pyval) list"

text \<open>
  The exceptions the cell can meet. \<open>KeyError k\<close> is what \<^verbatim>\<open>d[k]\<close> raises on a dict
  without the key \<open>k\<close>; \<open>TypeError_subscript v\<close> is the \<^verbatim>\<open>TypeError\<close> of
  \<^verbatim>\<open>v['...']\<close> on a value that is not a dict; \<open>TypeError_iter v\<close> is the
  \<^verbatim>\<open>TypeError\<close> of \<^verbatim>\<open>for ... in v\<close> on a value that is not iterable.
  \<open>Raised cls exc descr\<close> is an exception raised inside the library call: the name of
  its class, whether that class derives from \<^verbatim>\<open>Exception\<close> (every class does except
  those placed directly under \<^verbatim>\<open>BaseException\<close>, such as \<^verbatim>\<open>KeyboardInterrupt\<close>
  and \<^verbatim>\<open>SystemExit\<close>), and the text \<^verbatim>\<open>str(e)\<close>.
\<close>

datatype pyexc =
    KeyError string
  | TypeError_subscript pyval
  | TypeError_iter pyval
  | Raised string bool string

fun is_Exception :: "pyexc \<Rightarrow> bool" where
  "is_Exception (KeyError k) = True"
| "is_Exception (TypeError_subscript v) = True"
| "is_Exception (TypeError_iter v) = True"
| "is_Exception (Raised cls exc descr) = exc"

text \<open>
  Standard output is the list of \<^verbatim>\<open>print\<close> calls made so far, oldest first. Each
  entry is the object that was printed; \<^verbatim>\<open>print\<close> writes its \<^verbatim>\<open>str\<close> and a
  newline, so each entry stands for the text of one object followed by a newline.
\<close>

datatype printed = Out_value pyval | Out_exc pyexc

subsection \<open>The state of the notebook\<close>

record openai_module =
  api_type :: pyval
  api_key :: pyval
  api_base :: pyval
  api_version :: pyval

text \<open>
  The keyword arguments of \<^verbatim>\<open>openai.ChatCompletion.create\<close>. The keyword \<^verbatim>\<open>n\<close> is the
  field \<open>n_completions\<close>. A message is the dict the source writes, with string keys and
  string values.
\<close>

record request =
  deployment_id :: string
  messages :: "(string \<times> string) list list"
  temperature :: real
  n_completions :: int
  stop :: "string list option"
  max_tokens :: int
  stream :: bool

text \<open>
  \<open>world\<close> is everything outside the notebook that the library call may read and change
  (the network, the remote service). \<open>var_response\<close> and \<open>var_choice\<close> are the notebook's
  global names \<^verbatim>\<open>response\<close> and \<^verbatim>\<open>choice\<close>, unbound at first. \<open>requests_sent\<close> is the
  log of the calls of \<^verbatim>\<open>openai.ChatCompletion.create\<close>, oldest first.
\<close>

record 'w notebook =
  openai :: openai_module
  world :: 'w
  var_response :: "pyval option"
  var_choice :: "pyval option"
  stdout :: "printed list"
  requests_sent :: "request list"

type_synonym 'w sdk =
  "request \<Rightarrow> openai_module \<Rightarrow> 'w \<Rightarrow> (pyexc + pyval) \<times> openai_module \<times> 'w"

datatype cell_result = Completed | Uncaught pyexc

subsection \<open>The setup cell\<close>

definition setup_cell :: "'w notebook \<Rightarrow> 'w notebook" where
  "setup_cell s =
     s\<lparr>openai := (openai s)
         \<lparr>api_type := PStr ''azure'',
          api_key := PStr ''<your_api_key>'',
          api_base := PStr ''https://apis.ai.cosmoconsult.com'',
          api_version := PStr ''2023-07-01-preview''\<rparr>\<rparr>"

subsection \<open>The request cell\<close>

definition the_request :: request where
  "the_request =
     \<lparr>deployment_id = ''gpt-35-turbo'',
      messages =
        [[(''role'', ''system''), (''content'', ''You are a helpful assistant.'')],
         [(''role'', ''user''), (''content'', ''Who is Marie Curie?'')]],
      temperature = 0.2,
      n_completions = 1,
      stop = None,
      max_tokens = 150,
      stream = False\<rparr>"

text \<open>\<^verbatim>\<open>v[k]\<close> for a string key \<open>k\<close>.\<close>

fun subscript :: "pyval \<Rightarrow> string \<Rightarrow> pyexc + pyval" where
  "subscript (PDict d) k =
     (case map_of d k of Some v \<Rightarrow> Inr v | None \<Rightarrow> Inl (KeyError k))"
| "subscript v k = Inl (TypeError_subscript v)"

text \<open>
  The values \<^verbatim>\<open>for ... in v\<close> runs through: the elements of a list, the keys of a
  dict, the one-character strings of a string.
\<close>

fun iterate :: "pyval \<Rightarrow> pyexc + pyval list" where
  "iterate (PList xs) = Inr xs"
| "iterate (PDict d) = Inr (map (\<lambda>kv. PStr (fst kv)) d)"
| "iterate (PStr cs) = Inr (map (\<lambda>c. PStr [c]) cs)"
| "iterate v = Inl (TypeError_iter v)"

text \<open>\<^verbatim>\<open>choice['message']['content']\<close>.\<close>

definition choice_content :: "pyval \<Rightarrow> pyexc + pyval" where
  "choice_content choice =
     (case subscript choice ''message'' of
        Inl e \<Rightarrow> Inl e
      | Inr m \<Rightarrow> subscript m ''content'')"

text \<open>
  The loop \<^verbatim>\<open>for choice in ...: print(choice['message']['content'])\<close> over the values
  still to come. It stops at the first exception, which it hands to the enclosing
  \<^verbatim>\<open>try\<close>.
\<close>

fun print_choices :: "pyval list \<Rightarrow> 'w notebook \<Rightarrow> pyexc option \<times> 'w notebook" where
  "print_choices [] s = (None, s)"
| "print_choices (choice # rest) s =
     (let s1 = s\<lparr>var_choice := Some choice\<rparr> in
      case choice_content choice of
        Inl e \<Rightarrow> (Some e, s1)
      | Inr c \<Rightarrow> print_choices rest (s1\<lparr>stdout := stdout s1 @ [Out_value c]\<rparr>))"

text \<open>
  The body of the \<^verbatim>\<open>try\<close>: the call, the assignment to \<^verbatim>\<open>response\<close> when the call
  returns, then the loop. The result is the exception that left the body, if any.
\<close>

definition try_body :: "'w sdk \<Rightarrow> 'w notebook \<Rightarrow> pyexc option \<times> 'w notebook" where
  "try_body sdk s =
     (case sdk the_request (openai s) (world s) of
        (outcome, m, w) \<Rightarrow>
          (let s1 = s\<lparr>openai := m, world := w,
                      requests_sent := requests_sent s @ [the_request]\<rparr> in
           case outcome of
             Inl e \<Rightarrow> (Some e, s1)
           | Inr r \<Rightarrow>
               (let s2 = s1\<lparr>var_response := Some r\<rparr> in
                case subscript r ''choices'' of
                  Inl e \<Rightarrow> (Some e, s2)
                | Inr cs \<Rightarrow>
                    (case iterate cs of
                       Inl e \<Rightarrow> (Some e, s2)
                     | Inr xs \<Rightarrow> print_choices xs s2))))"

text \<open>
  The whole cell. \<^verbatim>\<open>except Exception as e: print(e)\<close> handles an exception whose
  class derives from \<^verbatim>\<open>Exception\<close>; any other leaves the cell.
\<close>

definition request_cell :: "'w sdk \<Rightarrow> 'w notebook \<Rightarrow> cell_result \<times> 'w notebook" where
  "request_cell sdk s =
     (case try_body sdk s of
        (None, s') \<Rightarrow> (Completed, s')
      | (Some e, s') \<Rightarrow>
          if is_Exception e then (Completed, s'\<lparr>stdout := stdout s' @ [Out_exc e]\<rparr>)
          else (Uncaught e, s'))"

subsection \<open>The preconditions of the specification\<close>

text \<open>
  The constraints the specification places on a call, in its words: the messages are
  not empty, the deployment or model name is not empty, \<open>n\<close> and \<open>max_tokens\<close> are at
  least one, and the temperature lies between 0.0 and 2.0.
\<close>

definition spec_preconditions :: "request \<Rightarrow> bool" where
  "spec_preconditions r =
     (messages r \<noteq> [] \<and> deployment_id r \<noteq> [] \<and> 1 \<le> n_completions r \<and>
      1 \<le> max_tokens r \<and> 0 \<le> temperature r \<and> temperature r \<le> 2)"

text \<open>
  The notebook runs under Python, where the literal \<^verbatim>\<open>0.2\<close> denotes the binary64
  number nearest to it.
\<close>

definition binary64_of_0_2 :: real where
  "binary64_of_0_2 = 3602879701896397 / 2 ^ 54"

subsection \<open>The output of the loop as a function of the values it runs through\<close>

text \<open>
  What the loop prints before it ends or raises, and the exception it raises, if any.
  Both are compared with \<open>print_choices\<close> below.
\<close>

fun loop_prints :: "pyval list \<Rightarrow> printed list" where
  "loop_prints [] = []"
| "loop_prints (choice # rest) =
     (case choice_content choice of
        Inl e \<Rightarrow> []
      | Inr c \<Rightarrow> Out_value c # loop_prints rest)"

fun loop_raises :: "pyval list \<Rightarrow> pyexc option" where
  "loop_raises [] = None"
| "loop_raises (choice # rest) =
     (case choice_content choice of
        Inl e \<Rightarrow> Some e
      | Inr c \<Rightarrow> loop_raises rest)"

subsection \<open>The output of the try body as a function of the outcome of the call\<close>

text \<open>
  What the body of the \<^verbatim>\<open>try\<close> prints, and the exception that leaves it, given what
  the library call did. Both are compared with \<open>try_body\<close> below.
\<close>

definition response_prints :: "pyexc + pyval \<Rightarrow> printed list" where
  "response_prints outcome =
     (case outcome of
        Inl e \<Rightarrow> []
      | Inr r \<Rightarrow>
          (case subscript r ''choices'' of
             Inl e \<Rightarrow> []
           | Inr cs \<Rightarrow> (case iterate cs of Inl e \<Rightarrow> [] | Inr xs \<Rightarrow> loop_prints xs)))"

definition response_raises :: "pyexc + pyval \<Rightarrow> pyexc option" where
  "response_raises outcome =
     (case outcome of
        Inl e \<Rightarrow> Some e
      | Inr r \<Rightarrow>
          (case subscript r ''choices'' of
             Inl e \<Rightarrow> Some e
           | Inr cs \<Rightarrow> (case iterate cs of Inl e \<Rightarrow> Some e | Inr xs \<Rightarrow> loop_raises xs)))"

subsection \<open>The text on standard output\<close>



subsection \<open>One run of the request cell\<close>

text \<open>What one run of the request cell adds to standard output.\<close>

definition printed_by :: "'w sdk \<Rightarrow> 'w notebook \<Rightarrow> printed list" where
  "printed_by sdk s = drop (length (stdout s)) (stdout (snd (request_cell sdk s)))"

text \<open>The four attributes as the setup cell assigns them.\<close>

definition azure_configuration :: openai_module where
  "azure_configuration =
     \<lparr>api_type = PStr ''azure'',
      api_key = PStr ''<your_api_key>'',
      api_base = PStr ''https://apis.ai.cosmoconsult.com'',
      api_version = PStr ''2023-07-01-preview''\<rparr>"

subsection \<open>Concrete libraries and a concrete starting state\<close>

text \<open>
  A kernel in which nothing has run yet, and four behaviours of the library call, used
  to evaluate the cell: one that answers with two choices, one that rejects the key, one
  that answers with a choice the loop cannot read, and one that is interrupted from the
  keyboard while it waits. The world is the number of requests served.
\<close>

definition notebook0 :: "nat notebook" where
  "notebook0 =
     \<lparr>openai = \<lparr>api_type = PStr ''open_ai'', api_key = PNone,
                 api_base = PStr ''https://api.openai.com/v1'', api_version = PNone\<rparr>,
      world = 0,
      var_response = None,
      var_choice = None,
      stdout = [],
      requests_sent = []\<rparr>"

definition two_choices :: "pyval list" where
  "two_choices =
     [PDict [(''index'', PInt 0), (''finish_reason'', PStr ''stop''),
             (''message'', PDict [(''role'', PStr ''assistant''),
                                  (''content'', PStr ''Marie Curie was a physicist.'')])],
      PDict [(''index'', PInt 1), (''finish_reason'', PStr ''length''),
             (''message'', PDict [(''role'', PStr ''assistant''),
                                  (''content'', PStr ''Marie Curie, born Maria'')])]]"

definition sample_response :: pyval where
  "sample_response =
     PDict [(''object'', PStr ''chat.completion''), (''model'', PStr ''gpt-35-turbo''),
            (''choices'', PList two_choices)]"

definition sdk_answers :: "nat sdk" where
  "sdk_answers req m w = (Inr sample_response, m, Suc w)"

definition access_denied :: pyexc where
  "access_denied = Raised ''AuthenticationError'' True ''Access denied due to invalid subscription key.''"

definition sdk_unauthorized :: "nat sdk" where
  "sdk_unauthorized req m w = (Inl access_denied, m, Suc w)"

text \<open>A response whose second choice has no \<open>message\<close>.\<close>

definition filtered_response :: pyval where
  "filtered_response =
     PDict [(''object'', PStr ''chat.completion''),
            (''choices'', PList
               [PDict [(''index'', PInt 0), (''finish_reason'', PStr ''stop''),
                       (''message'', PDict [(''role'', PStr ''assistant''),
                                            (''content'', PStr ''Marie Curie was a physicist.'')])],
                PDict [(''index'', PInt 1), (''finish_reason'', PStr ''content_filter'')]])]"

definition sdk_filtered :: "nat sdk" where
  "sdk_filtered req m w = (Inr filtered_response, m, Suc w)"

definition keyboard_interrupt :: pyexc where
  "keyboard_interrupt = Raised ''KeyboardInterrupt'' False []"

definition sdk_interrupted :: "nat sdk" where
  "sdk_interrupted req m w = (Inl keyboard_interrupt, m, w)"

section \<open>Facts about the cells\<close>

subsection \<open>The loop\<close>

lemma print_choices_stdout:
  "stdout (snd (print_choices xs s)) = stdout s @ loop_prints xs"
  by (induction xs arbitrary: s) (simp_all add: Let_def split: sum.splits)

lemma print_choices_raises:
  "fst (print_choices xs s) = loop_raises xs"
  by (induction xs arbitrary: s) (simp_all add: Let_def split: sum.splits)

lemma print_choices_frame:
  "openai (snd (print_choices xs s)) = openai s \<and>
   world (snd (print_choices xs s)) = world s \<and>
   requests_sent (snd (print_choices xs s)) = requests_sent s \<and>
   var_response (snd (print_choices xs s)) = var_response s"
  by (induction xs arbitrary: s) (simp_all add: Let_def split: sum.splits)


subsection \<open>The body of the try\<close>

lemma try_body_frame:
  "openai (snd (try_body sdk s)) = fst (snd (sdk the_request (openai s) (world s))) \<and>
   world (snd (try_body sdk s)) = snd (snd (sdk the_request (openai s) (world s))) \<and>
   requests_sent (snd (try_body sdk s)) = requests_sent s @ [the_request]"
  by (cases "sdk the_request (openai s) (world s)")
    (simp add: try_body_def Let_def print_choices_frame split: sum.splits)

lemma request_cell_frame:
  "openai (snd (request_cell sdk s)) = fst (snd (sdk the_request (openai s) (world s))) \<and>
   world (snd (request_cell sdk s)) = snd (snd (sdk the_request (openai s) (world s))) \<and>
   requests_sent (snd (request_cell sdk s)) = requests_sent s @ [the_request]"
  using try_body_frame [of sdk s]
  by (cases "try_body sdk s") (auto simp: request_cell_def split: option.splits)

lemma try_body_output:
  "fst (try_body sdk s) = response_raises (fst (sdk the_request (openai s) (world s))) \<and>
   stdout (snd (try_body sdk s)) =
     stdout s @ response_prints (fst (sdk the_request (openai s) (world s)))"
  by (cases "sdk the_request (openai s) (world s)")
    (simp add: try_body_def Let_def response_raises_def response_prints_def
      print_choices_stdout print_choices_raises split: sum.splits)

lemma request_cell_output:
  "fst (request_cell sdk s) =
     (case response_raises (fst (sdk the_request (openai s) (world s))) of
        None \<Rightarrow> Completed
      | Some e \<Rightarrow> if is_Exception e then Completed else Uncaught e) \<and>
   stdout (snd (request_cell sdk s)) =
     stdout s @ response_prints (fst (sdk the_request (openai s) (world s))) @
     (case response_raises (fst (sdk the_request (openai s) (world s))) of
        None \<Rightarrow> []
      | Some e \<Rightarrow> if is_Exception e then [Out_exc e] else [])"
  using try_body_output [of sdk s]
  by (cases "try_body sdk s") (auto simp: request_cell_def split: option.splits)

lemma printed_by_output:
  "printed_by sdk s =
     response_prints (fst (sdk the_request (openai s) (world s))) @
     (case response_raises (fst (sdk the_request (openai s) (world s))) of
        None \<Rightarrow> []
      | Some e \<Rightarrow> if is_Exception e then [Out_exc e] else [])"
  by (simp add: printed_by_def request_cell_output)

lemma subscript_raises: "subscript v k = Inl e \<Longrightarrow> is_Exception e"
  by (cases v) (auto split: option.splits)

lemma iterate_raises: "iterate v = Inl e \<Longrightarrow> is_Exception e"
  by (cases v) auto

lemma choice_content_raises: "choice_content c = Inl e \<Longrightarrow> is_Exception e"
  by (auto simp: choice_content_def split: sum.splits dest: subscript_raises)

lemma loop_raises_is_Exception: "loop_raises xs = Some e \<Longrightarrow> is_Exception e"
  by (induction xs) (auto split: sum.splits dest: choice_content_raises)

lemma response_raises_is_Exception:
  "response_raises (Inr r) = Some e \<Longrightarrow> is_Exception e"
  by (auto simp: response_raises_def split: sum.splits
      dest: subscript_raises iterate_raises loop_raises_is_Exception)

text \<open>
  The cell applies the library call once, to the literal request, whatever the call
  does: the log grows by that request and the world is what one application leaves.
\<close>

lemma request_cell_applies_library_once:
  "requests_sent (snd (request_cell sdk s)) = requests_sent s @ [the_request] \<and>
   stream the_request = False \<and>
   world (snd (request_cell sdk s)) = snd (snd (sdk the_request (openai s) (world s)))"
  using request_cell_frame [of sdk s] by (simp add: the_request_def)

text \<open>
  The name \<^verbatim>\<open>response\<close> is bound to what the call returned and stays bound after the
  cell; a call that raises leaves the earlier binding in place.
\<close>

lemma try_body_response:
  "var_response (snd (try_body sdk s)) =
     (case fst (sdk the_request (openai s) (world s)) of
        Inl e \<Rightarrow> var_response s
      | Inr r \<Rightarrow> Some r)"
  by (cases "sdk the_request (openai s) (world s)")
    (simp add: try_body_def Let_def print_choices_frame split: sum.splits)

lemma response_stays_bound:
  "var_response (snd (request_cell sdk s)) =
     (case fst (sdk the_request (openai s) (world s)) of
        Inl e \<Rightarrow> var_response s
      | Inr r \<Rightarrow> Some r)"
  using try_body_response [of sdk s]
  by (cases "try_body sdk s") (auto simp: request_cell_def split: option.splits)



section \<open>The claims\<close>

text \<open>
  C10. The request cell writes none of the four attributes: after the cell they are
  what the one library call left, whether that call returned or raised. So if the call
  leaves the attributes of the module as it finds them, then after the cell, run after
  the setup cell, they hold exactly the four values the setup cell assigns.
\<close>

theorem request_cell_keeps_configuration:
  "openai (snd (request_cell sdk s)) = fst (snd (sdk the_request (openai s) (world s))) \<and>
   (fst (snd (sdk the_request (openai (setup_cell s)) (world (setup_cell s)))) =
      openai (setup_cell s) \<longrightarrow>
    api_type (openai (snd (request_cell sdk (setup_cell s)))) = PStr ''azure'' \<and>
    api_key (openai (snd (request_cell sdk (setup_cell s)))) = PStr ''<your_api_key>'' \<and>
    api_base (openai (snd (request_cell sdk (setup_cell s)))) =
      PStr ''https://apis.ai.cosmoconsult.com'' \<and>
    api_version (openai (snd (request_cell sdk (setup_cell s)))) =
      PStr ''2023-07-01-preview'')"
proof -
  have frame: "openai (snd (request_cell sdk t)) =
      fst (snd (sdk the_request (openai t) (world t)))" for t
    using request_cell_frame [of sdk t] by simp
  have "openai (setup_cell s) = azure_configuration"
    by (simp add: setup_cell_def azure_configuration_def)
  then show ?thesis
    by (simp add: frame azure_configuration_def)
qed

theorem request_cell_keeps_configuration_witness:
  "fst (snd (sdk_unauthorized the_request (openai (setup_cell notebook0))
      (world (setup_cell notebook0)))) = openai (setup_cell notebook0) \<and>
   api_key (openai (snd (request_cell sdk_unauthorized (setup_cell notebook0)))) =
     PStr ''<your_api_key>'' \<and>
   fst (snd (sdk_answers the_request (openai (setup_cell notebook0))
      (world (setup_cell notebook0)))) = openai (setup_cell notebook0) \<and>
   api_base (openai (snd (request_cell sdk_answers (setup_cell notebook0)))) =
     PStr ''https://apis.ai.cosmoconsult.com''"
proof -
  have h: "fst (snd (sdk_unauthorized the_request (openai (setup_cell notebook0))
      (world (setup_cell notebook0)))) = openai (setup_cell notebook0)"
    by (simp add: sdk_unauthorized_def)
  have h': "fst (snd (sdk_answers the_request (openai (setup_cell notebook0))
      (world (setup_cell notebook0)))) = openai (setup_cell notebook0)"
    by (simp add: sdk_answers_def)
  from h have "api_key (openai (snd (request_cell sdk_unauthorized (setup_cell notebook0)))) =
      PStr ''<your_api_key>''"
    using request_cell_keeps_configuration [of sdk_unauthorized notebook0] by blast
  moreover from h' have
    "api_base (openai (snd (request_cell sdk_answers (setup_cell notebook0)))) =
      PStr ''https://apis.ai.cosmoconsult.com''"
    using request_cell_keeps_configuration [of sdk_answers notebook0] by blast
  ultimately show ?thesis
    using h h' by blast
qed



text \<open>
  C8. If the call raises an exception, nothing of a result is printed: no choice content
  appears before or after the error. All the cell prints is the error itself, which it
  does whenever the class of the exception derives from \<^verbatim>\<open>Exception\<close>; an exception
  outside \<^verbatim>\<open>Exception\<close> leaves the cell with nothing printed at all.
\<close>

theorem failed_call_prints_no_content:
  assumes "fst (sdk the_request (openai s) (world s)) = Inl e"
  shows "stdout (snd (request_cell sdk s)) =
           stdout s @ (if is_Exception e then [Out_exc e] else []) \<and>
         printed_by sdk s = (if is_Exception e then [Out_exc e] else []) \<and>
         fst (request_cell sdk s) = (if is_Exception e then Completed else Uncaught e) \<and>
         (\<forall>v. Out_value v \<notin> set (printed_by sdk s)) \<and>
         set (printed_by sdk s) \<subseteq> {Out_exc e}"
  using assms
  by (auto simp: request_cell_output printed_by_output response_raises_def response_prints_def)

theorem failed_call_prints_no_content_witness:
  "fst (sdk_unauthorized the_request (openai notebook0) (world notebook0)) = Inl access_denied \<and>
   stdout (snd (request_cell sdk_unauthorized notebook0)) = [Out_exc access_denied] \<and>
   printed_by sdk_unauthorized notebook0 = [Out_exc access_denied] \<and>
   fst (request_cell sdk_unauthorized notebook0) = Completed \<and>
   fst (sdk_interrupted the_request (openai notebook0) (world notebook0)) =
     Inl keyboard_interrupt \<and>
   printed_by sdk_interrupted notebook0 = [] \<and>
   fst (request_cell sdk_interrupted notebook0) = Uncaught keyboard_interrupt"
proof -
  have h: "fst (sdk_unauthorized the_request (openai notebook0) (world notebook0)) =
      Inl access_denied"
    by (simp add: sdk_unauthorized_def)
  have e: "is_Exception access_denied"
    by (simp add: access_denied_def)
  have h': "fst (sdk_interrupted the_request (openai notebook0) (world notebook0)) =
      Inl keyboard_interrupt"
    by (simp add: sdk_interrupted_def)
  have e': "\<not> is_Exception keyboard_interrupt"
    by (simp add: keyboard_interrupt_def)
  have out0: "stdout notebook0 = []"
    by (simp add: notebook0_def)
  show ?thesis
    using h e h' e' out0
      failed_call_prints_no_content [of sdk_unauthorized notebook0 access_denied, OF h]
      failed_call_prints_no_content [of sdk_interrupted notebook0 keyboard_interrupt, OF h']
    by simp
qed

text \<open>
  C9. The one call of the notebook meets every precondition of the specification: two
  messages, the first with role system and the second with role user; the deployment is
  the non-empty string gpt-35-turbo; n is 1, max_tokens is 150 and the temperature 0.2
  lies in the interval from 0.0 to 2.0. The binary64 value of the literal differs from
  0.2 by less than 2 to the power -56 and lies in the same interval.
\<close>

theorem the_request_meets_preconditions:
  "spec_preconditions the_request \<and>
   map (\<lambda>m. map_of m ''role'') (messages the_request) = [Some ''system'', Some ''user''] \<and>
   deployment_id the_request = ''gpt-35-turbo'' \<and>
   n_completions the_request = 1 \<and>
   max_tokens the_request = 150 \<and>
   temperature the_request = 0.2 \<and>
   \<bar>binary64_of_0_2 - temperature the_request\<bar> < 1 / 2 ^ 56 \<and>
   0 \<le> binary64_of_0_2 \<and> binary64_of_0_2 \<le> 2"
  by (simp add: spec_preconditions_def the_request_def binary64_of_0_2_def)

section \<open>A further property of the request cell\<close>

text \<open>
  When the call returns, the cell always completes, whatever the
  response is. It prints the contents of the choices up to the first one it cannot read,
  and then the exception that reading raised, if there was one; every such exception is
  a \<^verbatim>\<open>KeyError\<close> or a \<^verbatim>\<open>TypeError\<close> and so is handled.
\<close>

theorem returned_call_always_completes:
  assumes "fst (sdk the_request (openai s) (world s)) = Inr r"
  shows "fst (request_cell sdk s) = Completed \<and>
         stdout (snd (request_cell sdk s)) =
           stdout s @ response_prints (Inr r) @
           (case response_raises (Inr r) of None \<Rightarrow> [] | Some e \<Rightarrow> [Out_exc e])"
proof (cases "response_raises (Inr r)")
  case None
  with assms show ?thesis by (simp add: request_cell_output)
next
  case (Some e)
  then have "is_Exception e" by (rule response_raises_is_Exception)
  with Some assms show ?thesis by (simp add: request_cell_output)
qed

theorem returned_call_always_completes_witness:
  "fst (sdk_filtered the_request (openai notebook0) (world notebook0)) = Inr filtered_response \<and>
   fst (request_cell sdk_filtered notebook0) = Completed \<and>
   stdout (snd (request_cell sdk_filtered notebook0)) =
     [Out_value (PStr ''Marie Curie was a physicist.''), Out_exc (KeyError ''message'')]"
proof -
  have h: "fst (sdk_filtered the_request (openai notebook0) (world notebook0)) =
      Inr filtered_response"
    by (simp add: sdk_filtered_def)
  have p: "response_prints (Inr filtered_response) =
      [Out_value (PStr ''Marie Curie was a physicist.'')]"
    by (simp add: response_prints_def filtered_response_def choice_content_def)
  have r: "response_raises (Inr filtered_response) = Some (KeyError ''message'')"
    by (simp add: response_raises_def filtered_response_def choice_content_def)
  have out0: "stdout notebook0 = []"
    by (simp add: notebook0_def)
  show ?thesis
    using h p r out0
      returned_call_always_completes [of sdk_filtered notebook0 filtered_response, OF h]
    by simp
qed

end
